theory Spec2Isabelle
  imports Main "HOL-Library.Word"
begin

section \<open>The Auth client of the Kontist SDK (src/lib/auth.ts)\<close>

text \<open>
  A shallow embedding of the class \<open>Auth\<close>. Optional JavaScript strings
  (\<open>refreshToken?: string\<close>) are \<open>string option\<close>: \<open>None\<close> is
  \<open>undefined\<close>. Exceptions and rejected promises are the left summand of a sum.
\<close>

subsection \<open>Values\<close>

type_synonym u8 = "8 word"

text \<open>The truthiness test JavaScript applies to an optional string in \<open>if (s)\<close>:
  \<open>undefined\<close> and the empty string are falsy.\<close>

definition truthy :: "string option \<Rightarrow> bool" where
  "truthy s = (case s of None \<Rightarrow> False | Some v \<Rightarrow> v \<noteq> [])"

text \<open>A template literal prints an absent value as the text \<open>undefined\<close>.\<close>

definition str_of :: "string option \<Rightarrow> string" where
  "str_of s = (case s of None \<Rightarrow> ''undefined'' | Some v \<Rightarrow> v)"

text \<open>The error classes of \<open>./errors\<close>, which \<open>auth.ts\<close> imports and constructs.
  \<open>KontistSDKError\<close> is built from an optional \<open>status\<close> and a \<open>message\<close>;
  it is the class thrown both for a misconfigured client and for a failed HTTP call.
  \<open>TypeError\<close> is the runtime's error for reading a property of \<open>undefined\<close>;
  \<open>FetchError\<close> stands for whatever \<open>fetch\<close> or \<open>response.json()\<close> reject with.\<close>

datatype error =
    KontistSDKError "nat option" string
  | UserUnauthorizedError
  | ChallengeExpiredError
  | ChallengeDeniedError
  | MFAConfirmationCanceledError
  | SilentAuthorizationError string
  | TypeError
  | FetchError string

datatype HttpMethod = GET | POST

datatype ChallengeStatus = PENDING | VERIFIED | DENIED

text \<open>An MFA challenge as the API returns it; \<open>expiresAt\<close> is the time value (in
  milliseconds) that \<open>new Date(challenge.expiresAt)\<close> reads from it.\<close>

record Challenge =
  challenge_id :: string
  status :: ChallengeStatus
  expiresAt :: int

text \<open>The parsed bodies \<open>auth.ts\<close> reads a property of: a challenge, an object
  with a \<open>token\<close>, or any other value that is not \<open>null\<close> (which has none of
  these properties: reading one gives \<open>undefined\<close>).\<close>

datatype json = JChallenge Challenge | JToken string | JOther string

definition id_of :: "json \<Rightarrow> string option" where
  "id_of j = (case j of JChallenge c \<Rightarrow> Some (challenge_id c) | _ \<Rightarrow> None)"

definition status_of :: "json \<Rightarrow> ChallengeStatus option" where
  "status_of j = (case j of JChallenge c \<Rightarrow> Some (status c) | _ \<Rightarrow> None)"

definition expiresAt_of :: "json \<Rightarrow> int option" where
  "expiresAt_of j = (case j of JChallenge c \<Rightarrow> Some (expiresAt c) | _ \<Rightarrow> None)"

definition token_of :: "json \<Rightarrow> string option" where
  "token_of j = (case j of JToken t \<Rightarrow> Some t | _ \<Rightarrow> None)"

subsection \<open>Tokens\<close>

text \<open>The token object of the OAuth2 client library, with the three fields
  \<open>auth.ts\<close> passes and reads. The access token is optional because
  \<open>pollChallengeStatus\<close> passes on whatever the \<open>token\<close> property of a response
  holds.\<close>

record Token =
  accessToken :: "string option"
  refreshToken :: "string option"
  tokenType :: "string option"

text \<open>\<open>String.prototype.toLowerCase\<close> on a text of one-byte characters: the letters
  \<open>A\<close> to \<open>Z\<close> become \<open>a\<close> to \<open>z\<close>, every other byte is kept.\<close>

definition lower_char :: "char \<Rightarrow> char" where
  "lower_char c =
     (if 65 \<le> (of_char c :: nat) \<and> (of_char c :: nat) \<le> 90 then char_of ((of_char c :: nat) + 32) else c)"

definition toLowerCase :: "string \<Rightarrow> string" where
  "toLowerCase s = map lower_char s"

text \<open>\<open>oauth2Client.createToken\<close> of the client library. \<open>setToken\<close> calls it
  in three shapes: \<open>(access, refresh, type, data)\<close>, \<open>(access, refresh, data)\<close> and
  \<open>(access, data)\<close>, with \<open>data = {}\<close>; a position that is not passed is \<open>None\<close>.
  The library keeps the access token and the refresh token as they are passed and
  stores the token type in lower case
  (\<open>data.token_type && data.token_type.toLowerCase()\<close>).\<close>

definition createToken :: "string option \<Rightarrow> string option \<Rightarrow> string option \<Rightarrow> Token" where
  "createToken access refresh type =
     \<lparr>accessToken = access, refreshToken = refresh, tokenType = map_option toLowerCase type\<rparr>"

subsection \<open>The client object\<close>

type_synonym promise_id = nat
type_synonym timer_id = nat

text \<open>The fields of \<open>Auth\<close>. \<open>token\<close> is the private \<open>_token\<close> (and its getter);
  \<open>rejectMFAConfirmation\<close> holds the \<open>reject\<close> function of a promise, named by
  the promise; \<open>clientSecret\<close> is what the constructor hands to the OAuth2 client.\<close>

record Auth =
  baseUrl :: string
  oauthState :: "string option"
  verifier :: "string option"
  clientSecret :: "string option"
  token :: "Token option"
  challengePollInterval :: nat
  challengePollTimeoutId :: "timer_id option"
  rejectMFAConfirmation :: "promise_id option"

record ClientOpts =
  opt_clientId :: string
  opt_clientSecret :: "string option"
  opt_redirectUri :: string
  opt_scopes :: "string list"
  opt_state :: "string option"
  opt_verifier :: "string option"

definition CHALLENGE_POLL_INTERVAL :: nat where
  "CHALLENGE_POLL_INTERVAL = 3000"

definition HTTP_STATUS_NO_CONTENT :: nat where
  "HTTP_STATUS_NO_CONTENT = 204"

definition MFA_CHALLENGE_PATH :: string where
  "MFA_CHALLENGE_PATH = ''/api/user/mfa/challenges''"

definition VERIFY_DEVICE_CHALLENGE_PATH :: "string \<Rightarrow> string \<Rightarrow> string" where
  "VERIFY_DEVICE_CHALLENGE_PATH deviceId challengeId =
     ''/api/user/devices/'' @ deviceId @ ''/challenges/'' @ challengeId @ ''/verify''"

text \<open>The constructor: it throws when both a verifier and a client secret are given
  (both truthy), and otherwise returns the object with its field initialisers. Building
  the OAuth2 client (or taking the one passed in \<open>oauthClient\<close>) cannot fail and is
  left out.\<close>

definition constructor :: "string \<Rightarrow> ClientOpts \<Rightarrow> error + Auth" where
  "constructor base opts =
     (if truthy (opt_verifier opts) \<and> truthy (opt_clientSecret opts)
      then Inl (KontistSDKError None
             ''You can provide only one parameter from ['verifier', 'clientSecret'].'')
      else Inr \<lparr>baseUrl = base, oauthState = opt_state opts, verifier = opt_verifier opts,
                clientSecret = opt_clientSecret opts, token = None,
                challengePollInterval = CHALLENGE_POLL_INTERVAL,
                challengePollTimeoutId = None, rejectMFAConfirmation = None\<rparr>)"

subsection \<open>setToken\<close>

definition setToken :: "string option \<Rightarrow> string option \<Rightarrow> string option \<Rightarrow> Auth \<Rightarrow> Token \<times> Auth" where
  "setToken access refresh type a =
     (let tok =
        (if truthy type \<and> truthy refresh then createToken access refresh type
         else if truthy refresh then createToken access refresh None
         else createToken access None None)
      in (tok, a\<lparr>token := Some tok\<rparr>))"

subsection \<open>The shared authenticated request\<close>

text \<open>What \<open>request\<close> hands to \<open>fetch\<close>: the two arguments of \<open>new URL\<close>, the
  method, the \<open>Authorization\<close> header and the body.\<close>

record http_request =
  url_path :: string
  url_base :: string
  httpMethod :: HttpMethod
  authorization :: string
  req_body :: "string option"

text \<open>A response: \<open>json_body\<close> is what \<open>response.json()\<close> settles with.\<close>

record http_response =
  status_code :: nat
  statusText :: string
  json_body :: "error + json"

text \<open>\<open>Response.ok\<close> of the Fetch API: the status is in the range 200 to 299.\<close>

definition ok :: "http_response \<Rightarrow> bool" where
  "ok r = (200 \<le> status_code r \<and> status_code r \<le> 299)"

text \<open>\<open>request\<close> up to its call of \<open>fetch\<close>: the token check, then the request
  that is sent.\<close>

definition request_send :: "Auth \<Rightarrow> string \<Rightarrow> HttpMethod \<Rightarrow> string option \<Rightarrow> error + http_request" where
  "request_send a path m body =
     (case token a of
        None \<Rightarrow> Inl UserUnauthorizedError
      | Some tok \<Rightarrow>
          Inr \<lparr>url_path = path, url_base = baseUrl a, httpMethod = m,
               authorization = ''Bearer '' @ str_of (accessToken tok), req_body = body\<rparr>)"

text \<open>\<open>request\<close> from the point where \<open>fetch\<close> has settled: \<open>None\<close> is the
  \<open>undefined\<close> it returns for status 204.\<close>

definition request_recv :: "error + http_response \<Rightarrow> error + json option" where
  "request_recv res =
     (case res of
        Inl e \<Rightarrow> Inl e
      | Inr response \<Rightarrow>
          if \<not> ok response
          then Inl (KontistSDKError (Some (status_code response)) (statusText response))
          else if status_code response = HTTP_STATUS_NO_CONTENT then Inr None
          else (case json_body response of Inl e \<Rightarrow> Inl e | Inr v \<Rightarrow> Inr (Some v)))"

text \<open>The whole of \<open>request\<close>, with \<open>fetch\<close> as a function of the request, and the
  list of requests that were sent.\<close>

definition request ::
  "(http_request \<Rightarrow> error + http_response) \<Rightarrow> Auth \<Rightarrow> string \<Rightarrow> HttpMethod \<Rightarrow> string option
     \<Rightarrow> (error + json option) \<times> http_request list" where
  "request fetch a path m body =
     (case request_send a path m body of
        Inl e \<Rightarrow> (Inl e, [])
      | Inr req \<Rightarrow> (request_recv (fetch req), [req]))"

subsection \<open>verifyDeviceChallenge\<close>

text \<open>The \<open>token\<close> of the response is read by destructuring, which throws on
  \<open>undefined\<close>; the refresh token is read from the stored token after the request.\<close>

definition verifyDeviceChallenge ::
  "(http_request \<Rightarrow> error + http_response) \<Rightarrow> string \<Rightarrow> string \<Rightarrow> string option \<Rightarrow> Auth
     \<Rightarrow> (error + Token) \<times> Auth" where
  "verifyDeviceChallenge fetch deviceId challengeId params a =
     (case fst (request fetch a (VERIFY_DEVICE_CHALLENGE_PATH deviceId challengeId) POST params) of
        Inl e \<Rightarrow> (Inl e, a)
      | Inr None \<Rightarrow> (Inl TypeError, a)
      | Inr (Some v) \<Rightarrow>
          (let refresh = (case token a of None \<Rightarrow> None | Some t \<Rightarrow> refreshToken t);
               (tok, a') = setToken (token_of v) refresh None a
           in (Inr tok, a')))"

subsection \<open>The PKCE challenge of getAuthUri\<close>

text \<open>\<open>btoa\<close> (package \<open>abab\<close>) applied to the string
  \<open>String.fromCharCode.apply(null, bytes)\<close>: the standard base64 encoding of the
  bytes, with \<open>=\<close> padding. Every index into the alphabet is below 64. On bytes
  \<open>btoa\<close> never returns \<open>null\<close>, so the fallback \<open>|| ""\<close> is never taken.\<close>

definition b64chars :: string where
  "b64chars = ''ABCDEFGHIJKLMNOPQRSTUVWXYZabcdefghijklmnopqrstuvwxyz0123456789+/''"

definition b64 :: "nat \<Rightarrow> char" where
  "b64 n = b64chars ! (n mod 64)"

fun btoa_nat :: "nat list \<Rightarrow> string" where
  "btoa_nat (a # b # c # r) =
     b64 (a div 4) # b64 ((a mod 4) * 16 + b div 16) # b64 ((b mod 16) * 4 + c div 64)
       # b64 (c mod 64) # btoa_nat r"
| "btoa_nat [a, b] =
     [b64 (a div 4), b64 ((a mod 4) * 16 + b div 16), b64 ((b mod 16) * 4), CHR ''='']"
| "btoa_nat [a] = [b64 (a div 4), b64 ((a mod 4) * 16), CHR ''='', CHR ''='']"
| "btoa_nat [] = []"

definition btoa :: "u8 list \<Rightarrow> string" where
  "btoa bytes = btoa_nat (map unat bytes)"

text \<open>\<open>s.split("=")[0]\<close>: the text before the first \<open>=\<close>.\<close>

definition split_first :: "char \<Rightarrow> string \<Rightarrow> string" where
  "split_first sep s = takeWhile (\<lambda>c. c \<noteq> sep) s"

text \<open>\<open>s.replace(a, b)\<close> with a string pattern of one character: JavaScript
  replaces the first occurrence only.\<close>

fun replace :: "char \<Rightarrow> char \<Rightarrow> string \<Rightarrow> string" where
  "replace a b [] = []"
| "replace a b (c # cs) = (if c = a then b # cs else c # replace a b cs)"

text \<open>Lines 109 to 114: the challenge computed from the digest bytes.\<close>

definition challenge_of :: "u8 list \<Rightarrow> string" where
  "challenge_of digest =
     replace (CHR ''/'') (CHR ''_'') (replace (CHR ''+'') (CHR ''-'') (split_first (CHR ''='') (btoa digest)))"

text \<open>The query object: property assignment overwrites a key in place or appends it.\<close>

datatype qval = QString string | QArray "string list"

fun set_prop :: "string \<Rightarrow> qval \<Rightarrow> (string \<times> qval) list \<Rightarrow> (string \<times> qval) list" where
  "set_prop k v [] = [(k, v)]"
| "set_prop k v (p # ps) = (if fst p = k then (k, v) # ps else p # set_prop k v ps)"

text \<open>\<open>getAuthUri\<close>. Its two collaborators are parameters: \<open>sha\<close> is
  \<open>sha256.array\<close> of the hashing package and \<open>getUri\<close> is
  \<open>oauth2Client.code.getUri\<close>, which receives the query.\<close>

definition getAuthUri ::
  "(string \<Rightarrow> u8 list) \<Rightarrow> ((string \<times> qval) list \<Rightarrow> 'uri) \<Rightarrow> Auth \<Rightarrow> (string \<times> qval) list option \<Rightarrow> 'uri" where
  "getAuthUri sha getUri a opts_query =
     (let query = (case opts_query of None \<Rightarrow> [] | Some q \<Rightarrow> q)
      in if truthy (verifier a)
         then getUri (set_prop ''code_challenge_method'' (QString ''S256'')
                (set_prop ''code_challenge'' (QString (challenge_of (sha (str_of (verifier a))))) query))
         else getUri query)"

text \<open>The derivation in the specification's words: the base64 text of the digest with
  all padding removed, every \<open>+\<close> replaced by \<open>-\<close> and every \<open>/\<close> by \<open>_\<close>.\<close>

definition base64url_spec :: "u8 list \<Rightarrow> string" where
  "base64url_spec digest =
     map (\<lambda>c. if c = CHR ''+'' then CHR ''-'' else if c = CHR ''/'' then CHR ''_'' else c)
       (filter (\<lambda>c. c \<noteq> CHR ''='') (btoa digest))"

subsection \<open>SHA-256\<close>

text \<open>The hashing package is not part of the repository. To evaluate \<open>getAuthUri\<close>
  at a concrete verifier, \<open>sha256_array\<close> gives the digest of a text of one-byte
  characters as FIPS 180-4 defines SHA-256.\<close>

unbundle bit_operations_syntax

type_synonym u32 = "32 word"

definition rotr :: "nat \<Rightarrow> u32 \<Rightarrow> u32" where
  "rotr n x = (drop_bit n x) OR (push_bit (32 - n) x)"

definition K256 :: "u32 list" where
  "K256 = [
   0x428A2F98, 0x71374491, 0xB5C0FBCF, 0xE9B5DBA5, 0x3956C25B, 0x59F111F1, 0x923F82A4, 0xAB1C5ED5,
   0xD807AA98, 0x12835B01, 0x243185BE, 0x550C7DC3, 0x72BE5D74, 0x80DEB1FE, 0x9BDC06A7, 0xC19BF174,
   0xE49B69C1, 0xEFBE4786, 0x0FC19DC6, 0x240CA1CC, 0x2DE92C6F, 0x4A7484AA, 0x5CB0A9DC, 0x76F988DA,
   0x983E5152, 0xA831C66D, 0xB00327C8, 0xBF597FC7, 0xC6E00BF3, 0xD5A79147, 0x06CA6351, 0x14292967,
   0x27B70A85, 0x2E1B2138, 0x4D2C6DFC, 0x53380D13, 0x650A7354, 0x766A0ABB, 0x81C2C92E, 0x92722C85,
   0xA2BFE8A1, 0xA81A664B, 0xC24B8B70, 0xC76C51A3, 0xD192E819, 0xD6990624, 0xF40E3585, 0x106AA070,
   0x19A4C116, 0x1E376C08, 0x2748774C, 0x34B0BCB5, 0x391C0CB3, 0x4ED8AA4A, 0x5B9CCA4F, 0x682E6FF3,
   0x748F82EE, 0x78A5636F, 0x84C87814, 0x8CC70208, 0x90BEFFFA, 0xA4506CEB, 0xBEF9A3F7, 0xC67178F2]"

definition H256 :: "u32 list" where
  "H256 = [0x6A09E667, 0xBB67AE85, 0x3C6EF372, 0xA54FF53A,
           0x510E527F, 0x9B05688C, 0x1F83D9AB, 0x5BE0CD19]"

definition ssig0 :: "u32 \<Rightarrow> u32" where
  "ssig0 x = rotr 7 x XOR rotr 18 x XOR drop_bit 3 x"

definition ssig1 :: "u32 \<Rightarrow> u32" where
  "ssig1 x = rotr 17 x XOR rotr 19 x XOR drop_bit 10 x"

definition bsig0 :: "u32 \<Rightarrow> u32" where
  "bsig0 x = rotr 2 x XOR rotr 13 x XOR rotr 22 x"

definition bsig1 :: "u32 \<Rightarrow> u32" where
  "bsig1 x = rotr 6 x XOR rotr 11 x XOR rotr 25 x"

definition Ch :: "u32 \<Rightarrow> u32 \<Rightarrow> u32 \<Rightarrow> u32" where
  "Ch x y z = (x AND y) XOR (NOT x AND z)"

definition Maj :: "u32 \<Rightarrow> u32 \<Rightarrow> u32 \<Rightarrow> u32" where
  "Maj x y z = (x AND y) XOR (x AND z) XOR (y AND z)"

fun be32 :: "u8 list \<Rightarrow> u32 list" where
  "be32 (a # b # c # d # r) =
     (push_bit 24 (ucast a) OR push_bit 16 (ucast b) OR push_bit 8 (ucast c) OR ucast d) # be32 r"
| "be32 _ = []"

text \<open>The message schedule, kept newest word first: 16 words in, \<open>16 + n\<close> out.\<close>

fun extend :: "nat \<Rightarrow> u32 list \<Rightarrow> u32 list" where
  "extend 0 w = w"
| "extend (Suc n) w =
     extend n ((ssig1 (w ! 1) + (w ! 6) + ssig0 (w ! 14) + (w ! 15)) # w)"

fun rounds :: "u32 list \<Rightarrow> u32 list \<Rightarrow> u32 list \<Rightarrow> u32 list" where
  "rounds (k # ks) (w # ws) [a, b, c, d, e, f, g, h] =
     (let t1 = h + bsig1 e + Ch e f g + k + w;
          t2 = bsig0 a + Maj a b c
      in rounds ks ws [t1 + t2, a, b, c, d + t1, e, f, g])"
| "rounds _ _ s = s"

definition compress :: "u32 list \<Rightarrow> u8 list \<Rightarrow> u32 list" where
  "compress hs blk = map2 (+) hs (rounds K256 (rev (extend 48 (rev (be32 blk)))) hs)"

definition pad :: "u8 list \<Rightarrow> u8 list" where
  "pad m = (let l = length m; bits = (of_nat (8 * l) :: 64 word) in
     m @ [0x80] @ replicate ((55 + 64 - l mod 64) mod 64) 0 @
     map (\<lambda>i. ucast (drop_bit (8 * (7 - i)) bits)) [0, 1, 2, 3, 4, 5, 6, 7])"

fun blocks :: "nat \<Rightarrow> u32 list \<Rightarrow> u8 list \<Rightarrow> u32 list" where
  "blocks 0 hs m = hs"
| "blocks (Suc n) hs m = blocks n (compress hs (take 64 m)) (drop 64 m)"

definition sha256_bytes :: "u8 list \<Rightarrow> u8 list" where
  "sha256_bytes m = (let p = pad m in
      concat (map (\<lambda>w. [ucast (drop_bit 24 w), ucast (drop_bit 16 w), ucast (drop_bit 8 w), ucast w])
         (blocks (length p div 64) H256 p)))"

definition sha256_array :: "string \<Rightarrow> u8 list" where
  "sha256_array message = sha256_bytes (map of_char message)"

subsection \<open>Promises, timers and requests in flight\<close>

text \<open>The asynchronous methods are modelled by the pieces between their \<open>await\<close>s.
  A \<open>world\<close> is the \<open>Auth\<close> object together with what the event loop holds:
  the promises, the pending timeouts with the arguments of their callback, the calls
  suspended at an \<open>await\<close> of \<open>request\<close> (keyed by the index of their request in
  \<open>sent\<close>), and the requests handed to \<open>fetch\<close> so far.\<close>

datatype settlement = Resolved Token | Rejected error

text \<open>A suspended call: \<open>getMFAConfirmedToken\<close> at line 331, \<open>pollChallengeStatus\<close>
  at line 292 (with \<open>pendingChallenge\<close>) and at line 311; the promise is the one whose
  \<open>resolve\<close> and \<open>reject\<close> the call holds.\<close>

datatype continuation =
    AwaitCreate promise_id
  | AwaitPoll "json option" promise_id
  | AwaitRedeem promise_id

record world =
  auth :: Auth
  promises :: "promise_id \<Rightarrow> settlement option"
  settleCalls :: "(promise_id \<times> settlement) list"
  timers :: "(timer_id \<times> json option \<times> promise_id) list"
  inflight :: "(nat \<times> continuation) list"
  sent :: "http_request list"
  nextPromise :: promise_id
  nextTimer :: timer_id

definition init :: "Auth \<Rightarrow> world" where
  "init a = \<lparr>auth = a, promises = (\<lambda>p. None), settleCalls = [], timers = [], inflight = [],
             sent = [], nextPromise = 0, nextTimer = 0\<rparr>"

text \<open>A call of the \<open>resolve\<close> or \<open>reject\<close> function of promise \<open>p\<close>. The call is
  recorded in \<open>settleCalls\<close>; as the language defines these functions, only the first
  call settles the promise and every later one is ignored.\<close>

definition settle :: "promise_id \<Rightarrow> settlement \<Rightarrow> world \<Rightarrow> world" where
  "settle p s w =
     w\<lparr>promises := (if promises w p = None then (promises w)(p := Some s) else promises w),
       settleCalls := settleCalls w @ [(p, s)]\<rparr>"

text \<open>\<open>await this.request(path, method)\<close> up to the suspension: the request is sent
  and the caller waits for it, or \<open>request\<close> has thrown.\<close>

definition send :: "string \<Rightarrow> HttpMethod \<Rightarrow> continuation \<Rightarrow> world \<Rightarrow> error + world" where
  "send path m k w =
     (case request_send (auth w) path m None of
        Inl e \<Rightarrow> Inl e
      | Inr req \<Rightarrow> Inr (w\<lparr>inflight := inflight w @ [(length (sent w), k)], sent := sent w @ [req]\<rparr>))"

subsection \<open>pollChallengeStatus\<close>

text \<open>Lines 290 to 295: the tick starts. Reading \<open>pendingChallenge.id\<close> of
  \<open>undefined\<close> throws inside the \<open>try\<close>, like a failing \<open>request\<close>.\<close>

definition pollChallengeStatus :: "json option \<Rightarrow> promise_id \<Rightarrow> world \<Rightarrow> world" where
  "pollChallengeStatus pendingChallenge p w =
     (case pendingChallenge of
        None \<Rightarrow> settle p (Rejected TypeError) w
      | Some c \<Rightarrow>
          (case send (MFA_CHALLENGE_PATH @ ''/'' @ str_of (id_of c)) GET (AwaitPoll pendingChallenge p) w of
             Inl e \<Rightarrow> settle p (Rejected e) w
           | Inr w' \<Rightarrow> w'))"

text \<open>Lines 296 to 325: the poll request has settled with \<open>res\<close>, and \<open>new Date()\<close>
  reads \<open>now\<close>. A body of 204 is \<open>undefined\<close>, whose property read at line 302 throws
  outside the \<open>try\<close>: the tick ends there. So does a redemption request that throws
  when it is made. A date read from a missing property is invalid and compares false.\<close>

definition pollChallengeStatus_afterGet ::
  "json option \<Rightarrow> promise_id \<Rightarrow> error + http_response \<Rightarrow> int \<Rightarrow> world \<Rightarrow> world" where
  "pollChallengeStatus_afterGet pendingChallenge p res now w =
     (case request_recv res of
        Inl e \<Rightarrow> settle p (Rejected e) w
      | Inr challenge \<Rightarrow>
          (let w1 = w\<lparr>auth := (auth w)\<lparr>rejectMFAConfirmation := None\<rparr>\<rparr> in
           case challenge of
             None \<Rightarrow> w1
           | Some c \<Rightarrow>
               (let hasExpired = (case expiresAt_of c of None \<Rightarrow> False | Some t \<Rightarrow> t < now);
                    wasDenied = (status_of c = Some DENIED);
                    wasVerified = (status_of c = Some VERIFIED)
                in if hasExpired then settle p (Rejected ChallengeExpiredError) w1
                   else if wasDenied then settle p (Rejected ChallengeDeniedError) w1
                   else if wasVerified then
                     (case send (MFA_CHALLENGE_PATH @ ''/'' @ str_of (id_of c) @ ''/token'') POST
                             (AwaitRedeem p) w1 of
                        Inl e \<Rightarrow> w1
                      | Inr w2 \<Rightarrow> w2)
                   else w1\<lparr>auth := (auth w1)\<lparr>rejectMFAConfirmation := Some p,
                                              challengePollTimeoutId := Some (nextTimer w1)\<rparr>,
                          timers := timers w1 @ [(nextTimer w1, pendingChallenge, p)],
                          nextTimer := Suc (nextTimer w1)\<rparr>)))"

text \<open>Lines 311 to 317: the redemption request has settled. A rejection, or a body of
  204 (destructuring \<open>undefined\<close>), ends the tick with an exception nobody catches.\<close>

definition pollChallengeStatus_afterPost :: "promise_id \<Rightarrow> error + http_response \<Rightarrow> world \<Rightarrow> world" where
  "pollChallengeStatus_afterPost p res w =
     (case request_recv res of
        Inl e \<Rightarrow> w
      | Inr None \<Rightarrow> w
      | Inr (Some v) \<Rightarrow>
          (let (tok, a') = setToken (token_of v) None None (auth w)
           in settle p (Resolved tok) (w\<lparr>auth := a'\<rparr>)))"

subsection \<open>getMFAConfirmedToken and cancelMFAConfirmation\<close>

text \<open>The promise the method returns and the promise it creates at line 333 are one
  promise here: the first resolves to the second.\<close>

definition getMFAConfirmedToken :: "world \<Rightarrow> world" where
  "getMFAConfirmedToken w =
     (let p = nextPromise w; w0 = w\<lparr>nextPromise := Suc p\<rparr> in
      case send MFA_CHALLENGE_PATH POST (AwaitCreate p) w0 of
        Inl e \<Rightarrow> settle p (Rejected e) w0
      | Inr w1 \<Rightarrow> w1)"

definition getMFAConfirmedToken_afterPost :: "promise_id \<Rightarrow> error + http_response \<Rightarrow> world \<Rightarrow> world" where
  "getMFAConfirmedToken_afterPost p res w =
     (case request_recv res of
        Inl e \<Rightarrow> settle p (Rejected e) w
      | Inr challenge \<Rightarrow> pollChallengeStatus challenge p w)"

definition clearTimeout :: "timer_id option \<Rightarrow> world \<Rightarrow> world" where
  "clearTimeout t w = w\<lparr>timers := filter (\<lambda>e. Some (fst e) \<noteq> t) (timers w)\<rparr>"

definition cancelMFAConfirmation :: "world \<Rightarrow> world" where
  "cancelMFAConfirmation w =
     (let w1 = clearTimeout (challengePollTimeoutId (auth w)) w in
      case rejectMFAConfirmation (auth w1) of
        None \<Rightarrow> w1
      | Some p \<Rightarrow> settle p (Rejected MFAConfirmationCanceledError) w1)"

subsection \<open>The event loop\<close>

text \<open>What can happen next: the application calls a method, a pending timeout fires,
  or the request with index \<open>k\<close> settles (with the clock reading at that moment).
  A timeout may fire at any later moment, so the length of \<open>challengePollInterval\<close>
  plays no part. An event that names no pending timeout or request changes nothing.\<close>

datatype event =
    CallGetMFAConfirmedToken
  | CallCancelMFAConfirmation
  | CallSetToken "string option" "string option" "string option"
  | TimerFires timer_id
  | FetchSettles nat "error + http_response" int

definition resume :: "continuation \<Rightarrow> error + http_response \<Rightarrow> int \<Rightarrow> world \<Rightarrow> world" where
  "resume k res now w =
     (case k of
        AwaitCreate p \<Rightarrow> getMFAConfirmedToken_afterPost p res w
      | AwaitPoll pendingChallenge p \<Rightarrow> pollChallengeStatus_afterGet pendingChallenge p res now w
      | AwaitRedeem p \<Rightarrow> pollChallengeStatus_afterPost p res w)"

definition step :: "event \<Rightarrow> world \<Rightarrow> world" where
  "step ev w =
     (case ev of
        CallGetMFAConfirmedToken \<Rightarrow> getMFAConfirmedToken w
      | CallCancelMFAConfirmation \<Rightarrow> cancelMFAConfirmation w
      | CallSetToken access refresh type \<Rightarrow> w\<lparr>auth := snd (setToken access refresh type (auth w))\<rparr>
      | TimerFires t \<Rightarrow>
          (case map_of (timers w) t of
             None \<Rightarrow> w
           | Some (pendingChallenge, p) \<Rightarrow>
               pollChallengeStatus pendingChallenge p (w\<lparr>timers := filter (\<lambda>e. fst e \<noteq> t) (timers w)\<rparr>))
      | FetchSettles k res now \<Rightarrow>
          (case map_of (inflight w) k of
             None \<Rightarrow> w
           | Some c \<Rightarrow> resume c res now (w\<lparr>inflight := filter (\<lambda>e. fst e \<noteq> k) (inflight w)\<rparr>)))"

fun run :: "event list \<Rightarrow> world \<Rightarrow> world" where
  "run [] w = w"
| "run (e # es) w = run es (step e w)"


subsection \<open>One confirmation at a time\<close>

text \<open>The shapes a world takes while a single call of \<open>getMFAConfirmedToken\<close>,
  with promise \<open>p\<close>, runs and no second one is started: nothing pending; the creation
  request in flight; a poll request in flight; the redemption request in flight; or the
  next poll scheduled. While a poll request is in flight a \<open>cancelMFAConfirmation\<close>
  may already have rejected the promise.\<close>

inductive chain :: "promise_id \<Rightarrow> world \<Rightarrow> bool" for p :: promise_id where
  idle: "inflight w = [] \<Longrightarrow> timers w = [] \<Longrightarrow> chain p w"
| creating: "inflight w = [(k, AwaitCreate p)] \<Longrightarrow> timers w = [] \<Longrightarrow>
     rejectMFAConfirmation (auth w) = None \<Longrightarrow> promises w p = None \<Longrightarrow> chain p w"
| polling: "inflight w = [(k, AwaitPoll pc p)] \<Longrightarrow> timers w = [] \<Longrightarrow>
     rejectMFAConfirmation (auth w) = None \<or> rejectMFAConfirmation (auth w) = Some p \<Longrightarrow>
     promises w p = None \<or> promises w p = Some (Rejected MFAConfirmationCanceledError) \<Longrightarrow> chain p w"
| redeeming: "inflight w = [(k, AwaitRedeem p)] \<Longrightarrow> timers w = [] \<Longrightarrow>
     rejectMFAConfirmation (auth w) = None \<Longrightarrow> chain p w"
| waiting: "inflight w = [] \<Longrightarrow> timers w = [(t, pc, p)] \<Longrightarrow>
     challengePollTimeoutId (auth w) = Some t \<Longrightarrow> rejectMFAConfirmation (auth w) = Some p \<Longrightarrow>
     promises w p = None \<or> promises w p = Some (Rejected MFAConfirmationCanceledError) \<Longrightarrow> chain p w"

subsection \<open>Example values\<close>

text \<open>A client holding a token with a refresh token, the responses of a server, and
  the worlds of one confirmation: at its first poll request, with the next poll
  scheduled, at its second poll request, after that request has failed, and with the
  redemption request in flight.\<close>

definition exampleAuth :: Auth where
  "exampleAuth =
     \<lparr>baseUrl = ''https://api.kontist.com'', oauthState = Some ''st'', verifier = Some ''verifier'',
      clientSecret = None,
      token = Some \<lparr>accessToken = Some ''at'', refreshToken = Some ''rt'', tokenType = Some ''bearer''\<rparr>,
      challengePollInterval = 3000, challengePollTimeoutId = None, rejectMFAConfirmation = None\<rparr>"

definition exampleOpts :: ClientOpts where
  "exampleOpts =
     \<lparr>opt_clientId = ''client'', opt_clientSecret = None, opt_redirectUri = ''https://app/cb'',
      opt_scopes = [''transactions''], opt_state = Some ''st'', opt_verifier = None\<rparr>"

definition respond :: "nat \<Rightarrow> string \<Rightarrow> json \<Rightarrow> error + http_response" where
  "respond code text j = Inr \<lparr>status_code = code, statusText = text, json_body = Inr j\<rparr>"

definition exampleChallenge :: "ChallengeStatus \<Rightarrow> json" where
  "exampleChallenge s = JChallenge \<lparr>challenge_id = ''c1'', status = s, expiresAt = 1000\<rparr>"

definition firstPoll :: world where
  "firstPoll = run [CallGetMFAConfirmedToken, FetchSettles 0 (respond 200 ''OK'' (exampleChallenge PENDING)) 0]
                 (init exampleAuth)"

definition pollScheduled :: world where
  "pollScheduled = run [CallGetMFAConfirmedToken, FetchSettles 0 (respond 200 ''OK'' (exampleChallenge PENDING)) 0,
                    FetchSettles 1 (respond 200 ''OK'' (exampleChallenge PENDING)) 10] (init exampleAuth)"

definition secondPoll :: world where
  "secondPoll = run [FetchSettles 1 (respond 200 ''OK'' (exampleChallenge PENDING)) 10, TimerFires 0] firstPoll"

definition failedPoll :: world where
  "failedPoll = run [FetchSettles 2 (Inl (FetchError ''network'')) 20] secondPoll"

definition redemptionPending :: world where
  "redemptionPending = run [FetchSettles 1 (respond 200 ''OK'' (exampleChallenge VERIFIED)) 10] firstPoll"

section \<open>Lemmas\<close>

lemma toLowerCase_Bearer: "toLowerCase ''Bearer'' = ''bearer''"
  by code_simp

lemma settle_fields [simp]:
  "auth (settle p s w) = auth w"
  "timers (settle p s w) = timers w"
  "inflight (settle p s w) = inflight w"
  "sent (settle p s w) = sent w"
  "nextTimer (settle p s w) = nextTimer w"
  "nextPromise (settle p s w) = nextPromise w"
  "settleCalls (settle p s w) = settleCalls w @ [(p, s)]"
  "promises (settle p s w) q = (if q = p \<and> promises w p = None then Some s else promises w q)"
  by (simp_all add: settle_def)

lemma send_Inr:
  "send path m k w = Inr w' \<Longrightarrow>
     auth w' = auth w \<and> timers w' = timers w \<and> promises w' = promises w \<and>
     settleCalls w' = settleCalls w \<and> nextTimer w' = nextTimer w \<and> nextPromise w' = nextPromise w \<and>
     inflight w' = inflight w @ [(length (sent w), k)] \<and>
     (\<exists>req. request_send (auth w) path m None = Inr req \<and> sent w' = sent w @ [req])"
  by (auto simp: send_def split: sum.splits)

lemma settled_settle: "promises w p = Some s \<Longrightarrow> promises (settle q s' w) p = Some s"
  by auto

lemma settled_pollChallengeStatus:
  "promises w p = Some s \<Longrightarrow> promises (pollChallengeStatus pc q w) p = Some s"
  by (auto simp: pollChallengeStatus_def split: option.splits sum.splits dest!: send_Inr)

lemma settled_afterGet:
  "promises w p = Some s \<Longrightarrow> promises (pollChallengeStatus_afterGet pc q res now w) p = Some s"
  by (auto simp: pollChallengeStatus_afterGet_def Let_def split: option.splits sum.splits dest!: send_Inr)

lemma settled_afterPost:
  "promises w p = Some s \<Longrightarrow> promises (pollChallengeStatus_afterPost q res w) p = Some s"
  by (auto simp: pollChallengeStatus_afterPost_def Let_def setToken_def split: option.splits sum.splits prod.splits)

lemma settled_getMFA:
  "promises w p = Some s \<Longrightarrow> promises (getMFAConfirmedToken w) p = Some s"
  by (auto simp: getMFAConfirmedToken_def Let_def split: option.splits sum.splits dest!: send_Inr)

lemma settled_getMFA_afterPost:
  "promises w p = Some s \<Longrightarrow> promises (getMFAConfirmedToken_afterPost q res w) p = Some s"
  by (auto simp: getMFAConfirmedToken_afterPost_def settled_pollChallengeStatus split: sum.splits)

lemma settled_cancel:
  "promises w p = Some s \<Longrightarrow> promises (cancelMFAConfirmation w) p = Some s"
  by (auto simp: cancelMFAConfirmation_def clearTimeout_def Let_def split: option.splits)

lemma settled_step: "promises w p = Some s \<Longrightarrow> promises (step e w) p = Some s"
  by (cases e)
     (auto simp: step_def resume_def settled_getMFA settled_cancel settled_pollChallengeStatus
        settled_afterGet settled_afterPost settled_getMFA_afterPost
        split: option.splits continuation.splits)

lemma settled_run: "promises w p = Some s \<Longrightarrow> promises (run es w) p = Some s"
  by (induction es arbitrary: w) (simp_all add: settled_step)

lemma cancel_fields [simp]:
  "inflight (cancelMFAConfirmation w) = inflight w"
  "sent (cancelMFAConfirmation w) = sent w"
  "auth (cancelMFAConfirmation w) = auth w"
  "timers (cancelMFAConfirmation w) = filter (\<lambda>e. Some (fst e) \<noteq> challengePollTimeoutId (auth w)) (timers w)"
  by (simp_all add: cancelMFAConfirmation_def clearTimeout_def Let_def split: option.splits)

lemma idle_step:
  "inflight w = [] \<Longrightarrow> timers w = [] \<Longrightarrow> e \<noteq> CallGetMFAConfirmedToken \<Longrightarrow>
     inflight (step e w) = [] \<and> timers (step e w) = [] \<and> sent (step e w) = sent w"
  by (cases e) (simp_all add: step_def)

lemma idle_run:
  "inflight w = [] \<Longrightarrow> timers w = [] \<Longrightarrow> CallGetMFAConfirmedToken \<notin> set es \<Longrightarrow>
     inflight (run es w) = [] \<and> timers (run es w) = [] \<and> sent (run es w) = sent w"
proof (induction es arbitrary: w)
  case Nil
  then show ?case by simp
next
  case (Cons e es)
  from Cons.prems have e: "e \<noteq> CallGetMFAConfirmedToken" and es: "CallGetMFAConfirmedToken \<notin> set es"
    by auto
  from idle_step [OF Cons.prems(1) Cons.prems(2) e]
  have i: "inflight (step e w) = []" and t: "timers (step e w) = []" and s: "sent (step e w) = sent w"
    by simp_all
  from Cons.IH [OF i t es] s show ?case by simp
qed

lemma chain_pollChallengeStatus:
  assumes "inflight w = []" and "timers w = []"
    and "rejectMFAConfirmation (auth w) = None \<or> rejectMFAConfirmation (auth w) = Some p"
    and "promises w p = None \<or> promises w p = Some (Rejected MFAConfirmationCanceledError)"
  shows "chain p (pollChallengeStatus pc p w)"
proof (cases pc)
  case None
  with assms show ?thesis by (simp add: pollChallengeStatus_def chain.idle)
next
  case (Some c)
  show ?thesis
  proof (cases "send (MFA_CHALLENGE_PATH @ ''/'' @ str_of (id_of c)) GET (AwaitPoll pc p) w")
    case (Inl e)
    with Some assms show ?thesis by (simp add: pollChallengeStatus_def chain.idle)
  next
    case (Inr w')
    from send_Inr [OF Inr] assms have "chain p w'"
      by (intro chain.polling [of _ "length (sent w)" pc]) auto
    with Some Inr show ?thesis by (simp add: pollChallengeStatus_def)
  qed
qed

lemma chain_start:
  assumes "inflight w = []" and "timers w = []" and "rejectMFAConfirmation (auth w) = None"
    and "promises w (nextPromise w) = None"
  shows "chain (nextPromise w) (getMFAConfirmedToken w)"
proof (cases "send MFA_CHALLENGE_PATH POST (AwaitCreate (nextPromise w)) (w\<lparr>nextPromise := Suc (nextPromise w)\<rparr>)")
  case (Inl e)
  with assms show ?thesis by (simp add: getMFAConfirmedToken_def Let_def chain.idle)
next
  case (Inr w')
  from send_Inr [OF Inr] assms have "chain (nextPromise w) w'"
    by (intro chain.creating [of _ "length (sent w)"]) auto
  with Inr show ?thesis by (simp add: getMFAConfirmedToken_def Let_def)
qed

lemma chain_afterGet:
  assumes "inflight w = []" and "timers w = []"
    and "rejectMFAConfirmation (auth w) = None \<or> rejectMFAConfirmation (auth w) = Some p"
    and "promises w p = None \<or> promises w p = Some (Rejected MFAConfirmationCanceledError)"
  shows "chain p (pollChallengeStatus_afterGet pc p res now w)"
proof (cases "request_recv res")
  case (Inl e)
  with assms show ?thesis by (simp add: pollChallengeStatus_afterGet_def chain.idle)
next
  case (Inr challenge)
  define w1 where "w1 = w\<lparr>auth := (auth w)\<lparr>rejectMFAConfirmation := None\<rparr>\<rparr>"
  have w1: "inflight w1 = []" "timers w1 = []" "rejectMFAConfirmation (auth w1) = None"
    "promises w1 = promises w"
    using assms by (simp_all add: w1_def)
  show ?thesis
  proof (cases challenge)
    case None
    with Inr w1 show ?thesis
      by (simp add: pollChallengeStatus_afterGet_def Let_def chain.idle w1_def)
  next
    case (Some c)
    let ?path = "MFA_CHALLENGE_PATH @ ''/'' @ str_of (id_of c) @ ''/token''"
    have redeem: "chain p (case send ?path POST (AwaitRedeem p) w1 of Inl e \<Rightarrow> w1 | Inr w2 \<Rightarrow> w2)"
    proof (cases "send ?path POST (AwaitRedeem p) w1")
      case (Inl e)
      with w1 show ?thesis by (simp add: chain.idle)
    next
      case (Inr w2)
      from send_Inr [OF Inr] w1 have "chain p w2"
        by (intro chain.redeeming [of _ "length (sent w1)"]) auto
      with Inr show ?thesis by simp
    qed
    have again: "chain p (w1\<lparr>auth := (auth w1)\<lparr>rejectMFAConfirmation := Some p,
                                              challengePollTimeoutId := Some (nextTimer w1)\<rparr>,
                          timers := timers w1 @ [(nextTimer w1, pc, p)],
                          nextTimer := Suc (nextTimer w1)\<rparr>)"
      using w1 assms(4) by (intro chain.waiting [of _ "nextTimer w1" pc]) auto
    from Inr Some redeem again w1 show ?thesis
      by (simp add: pollChallengeStatus_afterGet_def Let_def chain.idle w1_def [symmetric])
  qed
qed

lemma chain_afterPost:
  assumes "inflight w = []" and "timers w = []"
  shows "chain p (pollChallengeStatus_afterPost q res w)"
  using assms
  by (auto simp: pollChallengeStatus_afterPost_def Let_def setToken_def
      split: sum.splits option.splits prod.splits intro: chain.idle)

lemma chain_getMFA_afterPost:
  assumes "inflight w = []" and "timers w = []" and "rejectMFAConfirmation (auth w) = None"
    and "promises w p = None"
  shows "chain p (getMFAConfirmedToken_afterPost p res w)"
  using assms
  by (auto simp: getMFAConfirmedToken_afterPost_def split: sum.splits
      intro: chain.idle chain_pollChallengeStatus)

lemma chain_eq:
  assumes "chain p w" and "inflight w' = inflight w" and "timers w' = timers w"
    and "rejectMFAConfirmation (auth w') = rejectMFAConfirmation (auth w)"
    and "challengePollTimeoutId (auth w') = challengePollTimeoutId (auth w)"
    and "promises w' p = promises w p"
  shows "chain p w'"
  using assms
proof (cases rule: chain.cases)
  case idle
  with assms show ?thesis by (simp add: chain.idle)
next
  case (creating k)
  with assms show ?thesis by (intro chain.creating [of _ k]) simp_all
next
  case (polling k pc)
  with assms show ?thesis by (intro chain.polling [of _ k pc]) simp_all
next
  case (redeeming k)
  with assms show ?thesis by (intro chain.redeeming [of _ k]) simp_all
next
  case (waiting t pc)
  with assms show ?thesis by (intro chain.waiting [of _ t pc]) simp_all
qed

lemma chain_setToken:
  "chain p w \<Longrightarrow> chain p (w\<lparr>auth := snd (setToken access refresh type (auth w))\<rparr>)"
  by (erule chain_eq) (simp_all add: setToken_def Let_def)

lemma chain_cancel:
  assumes "chain p w"
  shows "chain p (cancelMFAConfirmation w)"
  using assms
proof (cases rule: chain.cases)
  case idle
  then show ?thesis by (simp add: chain.idle)
next
  case (creating k)
  then show ?thesis
    by (intro chain.creating [of _ k])
       (simp_all add: cancelMFAConfirmation_def clearTimeout_def Let_def)
next
  case (polling k pc)
  then show ?thesis
    by (intro chain.polling [of _ k pc])
       (auto simp: cancelMFAConfirmation_def clearTimeout_def Let_def)
next
  case (redeeming k)
  then show ?thesis by (intro chain.redeeming [of _ k]) simp_all
next
  case (waiting t pc)
  then show ?thesis by (intro chain.idle) simp_all
qed

lemma chain_timer:
  assumes "chain p w"
  shows "chain p (step (TimerFires t) w)"
  using assms
proof (cases rule: chain.cases)
  case (waiting t' pc)
  show ?thesis
  proof (cases "t = t'")
    case True
    have "chain p (pollChallengeStatus pc p (w\<lparr>timers := []\<rparr>))"
      using waiting by (intro chain_pollChallengeStatus) simp_all
    with True waiting show ?thesis by (simp add: step_def)
  next
    case False
    with waiting assms show ?thesis by (simp add: step_def)
  qed
qed (use assms in \<open>simp_all add: step_def\<close>)

lemma chain_fetch:
  assumes "chain p w"
  shows "chain p (step (FetchSettles k res now) w)"
  using assms
proof (cases rule: chain.cases)
  case idle
  with assms show ?thesis by (simp add: step_def)
next
  case (creating k')
  show ?thesis
  proof (cases "k = k'")
    case True
    have "chain p (getMFAConfirmedToken_afterPost p res (w\<lparr>inflight := []\<rparr>))"
      using creating by (intro chain_getMFA_afterPost) simp_all
    with True creating show ?thesis by (simp add: step_def resume_def)
  next
    case False
    with creating assms show ?thesis by (simp add: step_def)
  qed
next
  case (polling k' pc)
  show ?thesis
  proof (cases "k = k'")
    case True
    have "chain p (pollChallengeStatus_afterGet pc p res now (w\<lparr>inflight := []\<rparr>))"
      using polling by (intro chain_afterGet) simp_all
    with True polling show ?thesis by (simp add: step_def resume_def)
  next
    case False
    with polling assms show ?thesis by (simp add: step_def)
  qed
next
  case (redeeming k')
  show ?thesis
  proof (cases "k = k'")
    case True
    have "chain p (pollChallengeStatus_afterPost p res (w\<lparr>inflight := []\<rparr>))"
      using redeeming by (intro chain_afterPost) simp_all
    with True redeeming show ?thesis by (simp add: step_def resume_def)
  next
    case False
    with redeeming assms show ?thesis by (simp add: step_def)
  qed
next
  case (waiting t pc)
  with assms show ?thesis by (simp add: step_def)
qed

lemma chain_step:
  "chain p w \<Longrightarrow> e \<noteq> CallGetMFAConfirmedToken \<Longrightarrow> chain p (step e w)"
proof (cases e)
  case CallCancelMFAConfirmation
  assume "chain p w"
  with CallCancelMFAConfirmation show ?thesis by (simp add: step_def chain_cancel)
next
  case (CallSetToken access refresh type)
  assume "chain p w"
  with CallSetToken show ?thesis by (simp add: step_def chain_setToken)
next
  case (TimerFires t)
  assume "chain p w"
  with TimerFires show ?thesis by (simp add: chain_timer)
next
  case (FetchSettles k res now)
  assume "chain p w"
  with FetchSettles show ?thesis by (simp add: chain_fetch)
qed simp

lemma chain_run:
  "chain p w \<Longrightarrow> CallGetMFAConfirmedToken \<notin> set es \<Longrightarrow> chain p (run es w)"
proof (induction es arbitrary: w)
  case Nil
  then show ?case by simp
next
  case (Cons e es)
  from Cons.prems have "chain p (step e w)" by (intro chain_step) auto
  moreover from Cons.prems have "CallGetMFAConfirmedToken \<notin> set es" by simp
  ultimately show ?case using Cons.IH by simp
qed

lemma chain_reachable:
  assumes "rejectMFAConfirmation a = None" and "CallGetMFAConfirmedToken \<notin> set es"
  shows "chain 0 (run (CallGetMFAConfirmedToken # es) (init a))"
proof -
  have "chain (nextPromise (init a)) (getMFAConfirmedToken (init a))"
    using assms(1) by (intro chain_start) (simp_all add: init_def)
  then have "chain 0 (step CallGetMFAConfirmedToken (init a))"
    by (simp add: step_def init_def)
  from chain_run [OF this assms(2)] show ?thesis by simp
qed

lemmas eval_defs =
  firstPoll_def pollScheduled_def secondPoll_def failedPoll_def redemptionPending_def exampleAuth_def respond_def exampleChallenge_def
  init_def step_def resume_def getMFAConfirmedToken_def getMFAConfirmedToken_afterPost_def
  pollChallengeStatus_def pollChallengeStatus_afterGet_def pollChallengeStatus_afterPost_def
  cancelMFAConfirmation_def clearTimeout_def send_def settle_def request_send_def request_recv_def
  ok_def HTTP_STATUS_NO_CONTENT_def setToken_def createToken_def truthy_def str_of_def
  id_of_def status_of_def expiresAt_of_def token_of_def MFA_CHALLENGE_PATH_def Let_def

lemma firstPoll_fields:
  "inflight firstPoll = [(1, AwaitPoll (Some (exampleChallenge PENDING)) 0)]"
  "timers firstPoll = []"
  "promises firstPoll 0 = None"
  "settleCalls firstPoll = []"
  "length (sent firstPoll) = 2"
  by (simp_all add: eval_defs)

lemma secondPoll_fields:
  "inflight secondPoll = [(2, AwaitPoll (Some (exampleChallenge PENDING)) 0)]"
  "timers secondPoll = []"
  "promises secondPoll 0 = None"
  "rejectMFAConfirmation (auth secondPoll) = Some 0"
  "length (sent secondPoll) = 3"
  by (simp_all add: eval_defs)

lemma failedPoll_fields:
  "promises failedPoll 0 = Some (Rejected (FetchError ''network''))"
  "rejectMFAConfirmation (auth failedPoll) = Some 0"
  "settleCalls failedPoll = [(0, Rejected (FetchError ''network''))]"
  "settleCalls (cancelMFAConfirmation failedPoll)
     = [(0, Rejected (FetchError ''network'')), (0, Rejected MFAConfirmationCanceledError)]"
  "promises (cancelMFAConfirmation failedPoll) 0 = Some (Rejected (FetchError ''network''))"
  by (simp_all add: eval_defs)

lemma redemptionPending_fields:
  "inflight redemptionPending = [(2, AwaitRedeem 0)]"
  "token (auth redemptionPending) = Some \<lparr>accessToken = Some ''at'', refreshToken = Some ''rt'', tokenType = Some ''bearer''\<rparr>"
  "promises redemptionPending 0 = None"
  "map url_path (sent redemptionPending) = [''/api/user/mfa/challenges'', ''/api/user/mfa/challenges/c1'', ''/api/user/mfa/challenges/c1/token'']"
  by (simp_all add: eval_defs)


lemma afterGet_expired:
  assumes "200 \<le> status_code r" and "status_code r \<le> 299" and "status_code r \<noteq> 204"
    and "json_body r = Inr (JChallenge c)" and "expiresAt c < now"
  shows "pollChallengeStatus_afterGet pc p (Inr r) now w
           = settle p (Rejected ChallengeExpiredError) (w\<lparr>auth := (auth w)\<lparr>rejectMFAConfirmation := None\<rparr>\<rparr>)"
  using assms
  by (simp add: pollChallengeStatus_afterGet_def request_recv_def ok_def HTTP_STATUS_NO_CONTENT_def
      expiresAt_of_def Let_def)

lemma map_of_filter_out: "map_of (filter (\<lambda>e. fst e \<noteq> t) xs) t = None"
  by (induction xs) auto




lemma sha256_verifier:
  "sha256_array ''verifier'' =
     [136, 201, 234, 230, 142, 179, 0, 178, 151, 26, 43, 236, 158, 90, 38, 255,
      65, 121, 253, 102, 29, 107, 125, 134, 30, 76, 101, 87, 185, 170, 238, 20]"
  by code_simp

lemma challenge_of_verifier_digest:
  "challenge_of [136, 201, 234, 230, 142, 179, 0, 178, 151, 26, 43, 236, 158, 90, 38, 255,
      65, 121, 253, 102, 29, 107, 125, 134, 30, 76, 101, 87, 185, 170, 238, 20]
     = ''iMnq5o6zALKXGivsnlom_0F5/WYda32GHkxlV7mq7hQ''"
  "base64url_spec [136, 201, 234, 230, 142, 179, 0, 178, 151, 26, 43, 236, 158, 90, 38, 255,
      65, 121, 253, 102, 29, 107, 125, 134, 30, 76, 101, 87, 185, 170, 238, 20]
     = ''iMnq5o6zALKXGivsnlom_0F5_WYda32GHkxlV7mq7hQ''"
  by code_simp+

lemma b64_not_pad: "b64 n \<noteq> CHR ''=''"
proof -
  have "n mod 64 < length b64chars" by (simp add: b64chars_def)
  then have "b64 n \<in> set b64chars" unfolding b64_def by (rule nth_mem)
  moreover have "CHR ''='' \<notin> set b64chars" by (simp add: b64chars_def)
  ultimately show ?thesis by auto
qed

lemma btoa_nat_padding:
  "takeWhile (\<lambda>c. c \<noteq> CHR ''='') (btoa_nat xs) = filter (\<lambda>c. c \<noteq> CHR ''='') (btoa_nat xs)"
  by (induction xs rule: btoa_nat.induct) (simp_all add: b64_not_pad)

lemma map_absent: "count_list s a = 0 \<Longrightarrow> map (\<lambda>c. if c = a then b else c) s = s"
  by (induction s) (auto split: if_splits)

lemma replace_once:
  "count_list s a \<le> 1 \<Longrightarrow> replace a b s = map (\<lambda>c. if c = a then b else c) s"
  by (induction s) (auto simp: map_absent split: if_splits)

lemma count_list_filter_le: "count_list (filter P s) a \<le> count_list s a"
  by (induction s) auto

lemma count_list_map_other:
  "a \<noteq> x \<Longrightarrow> b \<noteq> x \<Longrightarrow> count_list (map (\<lambda>c. if c = a then b else c) s) x = count_list s x"
  by (induction s) auto

lemma abc_digest_counts:
  "count_list (btoa [0xBA, 0x78, 0x16, 0xBF, 0x8F, 0x01, 0xCF, 0xEA, 0x41, 0x41, 0x40, 0xDE, 0x5D, 0xAE, 0x22, 0x23,
      0xB0, 0x03, 0x61, 0xA3, 0x96, 0x17, 0x7A, 0x9C, 0xB4, 0x10, 0xFF, 0x61, 0xF2, 0x00, 0x15, 0xAD]) (CHR ''+'') = 1"
  "count_list (btoa [0xBA, 0x78, 0x16, 0xBF, 0x8F, 0x01, 0xCF, 0xEA, 0x41, 0x41, 0x40, 0xDE, 0x5D, 0xAE, 0x22, 0x23,
      0xB0, 0x03, 0x61, 0xA3, 0x96, 0x17, 0x7A, 0x9C, 0xB4, 0x10, 0xFF, 0x61, 0xF2, 0x00, 0x15, 0xAD]) (CHR ''/'') = 1"
  "base64url_spec [0xBA, 0x78, 0x16, 0xBF, 0x8F, 0x01, 0xCF, 0xEA, 0x41, 0x41, 0x40, 0xDE, 0x5D, 0xAE, 0x22, 0x23,
      0xB0, 0x03, 0x61, 0xA3, 0x96, 0x17, 0x7A, 0x9C, 0xB4, 0x10, 0xFF, 0x61, 0xF2, 0x00, 0x15, 0xAD]
     = ''ungWv48Bz-pBQUDeXa4iI7ADYaOWF3qctBD_YfIAFa0''"
  by code_simp+

section \<open>Properties stated by the specification\<close>

subsection \<open>The PKCE challenge\<close>

text \<open>C1. The claim: the authorization URI embeds \<open>code_challenge\<close> equal to
  base64url(SHA-256(verifier)), with every \<open>+\<close> and every \<open>/\<close> replaced. For the
  verifier \<open>verifier\<close> the base64 text of the digest holds two \<open>/\<close>;
  \<open>getAuthUri\<close> replaces the first one only, so the challenge it passes on differs
  from the base64url text in one character. \<open>code_challenge_method\<close> is
  \<open>S256\<close>.\<close>

theorem getAuthUri_challenge_at_verifier:
  "verifier exampleAuth = Some ''verifier''
   \<and> getAuthUri sha256_array (\<lambda>query. query) exampleAuth None
       = [(''code_challenge'', QString ''iMnq5o6zALKXGivsnlom_0F5/WYda32GHkxlV7mq7hQ''),
          (''code_challenge_method'', QString ''S256'')]
   \<and> base64url_spec (sha256_array ''verifier'') = ''iMnq5o6zALKXGivsnlom_0F5_WYda32GHkxlV7mq7hQ''"
  by (simp add: getAuthUri_def exampleAuth_def truthy_def str_of_def sha256_verifier
      challenge_of_verifier_digest)

subsection \<open>Tokens\<close>

text \<open>C2. The claim: after a poll has seen \<open>VERIFIED\<close>, the confirmed access token is stored
  together with the refresh token that was stored before. What the code does when the
  redemption request succeeds: it stores, and resolves the promise with, a token that has
  the confirmed access token and no refresh token, whatever was stored before.\<close>

theorem verified_poll_drops_refreshToken:
  assumes "map_of (inflight w) k = Some (AwaitRedeem p)"
    and "200 \<le> status_code r" and "status_code r \<le> 299" and "status_code r \<noteq> 204"
    and "json_body r = Inr (JToken confirmedToken)"
  shows "token (auth (step (FetchSettles k (Inr r) now) w))
           = Some \<lparr>accessToken = Some confirmedToken, refreshToken = None, tokenType = None\<rparr>
       \<and> (promises w p = None \<longrightarrow>
            promises (step (FetchSettles k (Inr r) now) w) p
              = Some (Resolved \<lparr>accessToken = Some confirmedToken, refreshToken = None, tokenType = None\<rparr>))"
  using assms
  by (simp add: step_def resume_def pollChallengeStatus_afterPost_def request_recv_def ok_def
      HTTP_STATUS_NO_CONTENT_def setToken_def createToken_def token_of_def truthy_def Let_def)

theorem verified_poll_drops_refreshToken_witness:
  "token (auth redemptionPending)
     = Some \<lparr>accessToken = Some ''at'', refreshToken = Some ''rt'', tokenType = Some ''bearer''\<rparr>
   \<and> token (auth (step (FetchSettles 2 (Inr \<lparr>status_code = 200, statusText = ''OK'',
                 json_body = Inr (JToken ''confirmed'')\<rparr>) 20) redemptionPending))
     = Some \<lparr>accessToken = Some ''confirmed'', refreshToken = None, tokenType = None\<rparr>
   \<and> promises (step (FetchSettles 2 (Inr \<lparr>status_code = 200, statusText = ''OK'',
                 json_body = Inr (JToken ''confirmed'')\<rparr>) 20) redemptionPending) 0
     = Some (Resolved \<lparr>accessToken = Some ''confirmed'', refreshToken = None, tokenType = None\<rparr>)"
  using verified_poll_drops_refreshToken [of redemptionPending 2 0
      "\<lparr>status_code = 200, statusText = ''OK'', json_body = Inr (JToken ''confirmed'')\<rparr>" "''confirmed''" 20]
  by (simp add: redemptionPending_fields)

text \<open>C3. A successful \<open>verifyDeviceChallenge\<close>, made while a token with a refresh token
  is stored, stores and returns the token that combines the access token of the response
  with the stored refresh token.\<close>

theorem verifyDeviceChallenge_refresh:
  assumes "token a = Some t" and "truthy (refreshToken t)"
    and "request_send a (VERIFY_DEVICE_CHALLENGE_PATH deviceId challengeId) POST params = Inr req"
    and "fetch req = Inr r"
    and "200 \<le> status_code r" and "status_code r \<le> 299" and "status_code r \<noteq> 204"
    and "json_body r = Inr (JToken access)"
  shows "verifyDeviceChallenge fetch deviceId challengeId params a
           = (Inr \<lparr>accessToken = Some access, refreshToken = refreshToken t, tokenType = None\<rparr>,
              a\<lparr>token := Some \<lparr>accessToken = Some access, refreshToken = refreshToken t, tokenType = None\<rparr>\<rparr>)"
  using assms
  by (simp add: verifyDeviceChallenge_def request_def request_recv_def ok_def HTTP_STATUS_NO_CONTENT_def
      setToken_def createToken_def token_of_def truthy_def Let_def)

theorem verifyDeviceChallenge_refresh_witness:
  "verifyDeviceChallenge (\<lambda>q. respond 200 ''OK'' (JToken ''elevated'')) ''d1'' ''c1'' (Some ''{signature}'') exampleAuth
     = (Inr \<lparr>accessToken = Some ''elevated'', refreshToken = Some ''rt'', tokenType = None\<rparr>,
        exampleAuth\<lparr>token := Some \<lparr>accessToken = Some ''elevated'', refreshToken = Some ''rt'', tokenType = None\<rparr>\<rparr>)"
  using verifyDeviceChallenge_refresh [of exampleAuth
      "\<lparr>accessToken = Some ''at'', refreshToken = Some ''rt'', tokenType = Some ''bearer''\<rparr>"
      "''d1''" "''c1''" "Some ''{signature}''"
      "\<lparr>url_path = VERIFY_DEVICE_CHALLENGE_PATH ''d1'' ''c1'', url_base = ''https://api.kontist.com'', httpMethod = POST,
          authorization = ''Bearer at'', req_body = Some ''{signature}''\<rparr>"
      "\<lambda>q. respond 200 ''OK'' (JToken ''elevated'')"
      "\<lparr>status_code = 200, statusText = ''OK'', json_body = Inr (JToken ''elevated'')\<rparr>" "''elevated''"]
  by (simp add: request_send_def exampleAuth_def respond_def str_of_def truthy_def)

text \<open>C10. \<open>setToken\<close> without a refresh token ignores the token type: the result is
  the one for the access token alone, the token built from the access token only. The
  token type changes nothing unless the refresh token is truthy.\<close>

theorem setToken_tokenType:
  "setToken access None type a = setToken access None None a
   \<and> fst (setToken access None type a) = createToken access None None
   \<and> (\<not> truthy refresh \<longrightarrow> setToken access refresh type a = setToken access refresh type' a)"
  by (simp add: setToken_def truthy_def createToken_def Let_def)

theorem setToken_tokenType_witness:
  "setToken (Some ''at'') None (Some ''Bearer'') exampleAuth = setToken (Some ''at'') None None exampleAuth
   \<and> fst (setToken (Some ''at'') None (Some ''Bearer'') exampleAuth) = createToken (Some ''at'') None None
   \<and> setToken (Some ''at'') (Some []) (Some ''Bearer'') exampleAuth = setToken (Some ''at'') (Some []) (Some ''mac'') exampleAuth"
proof -
  have "\<not> truthy (Some [])" by (simp add: truthy_def)
  with setToken_tokenType [of "Some ''at''" "Some ''Bearer''" exampleAuth "Some []" "Some ''mac''"]
  show ?thesis by blast
qed

subsection \<open>The authenticated request and the constructor\<close>

text \<open>C5. With no token stored, \<open>request\<close> fails with \<open>UserUnauthorizedError\<close> and
  hands nothing to \<open>fetch\<close>, for every path, method and body.\<close>

theorem request_without_token:
  "token a = None \<Longrightarrow> request fetch a path m body = (Inl UserUnauthorizedError, [])"
  by (simp add: request_def request_send_def)

theorem request_without_token_witness:
  "token (exampleAuth\<lparr>token := None\<rparr>) = None \<and>
   request (\<lambda>q. respond 200 ''OK'' (JOther ''{}'')) (exampleAuth\<lparr>token := None\<rparr>) ''/api/user/devices'' POST None
     = (Inl UserUnauthorizedError, [])"
  using request_without_token [of "exampleAuth\<lparr>token := None\<rparr>" "\<lambda>q. respond 200 ''OK'' (JOther ''{}'')" "''/api/user/devices''" POST None]
  by simp

text \<open>C6. For every response: a status outside 200 to 299 gives the error
  \<open>KontistSDKError\<close> carrying the status code and the status text; status 204 gives no
  value; any other status from 200 to 299 gives what \<open>response.json()\<close> gives.\<close>

theorem request_response:
  assumes "request_send a path m body = Inr req" and "fetch req = Inr r"
  shows "(status_code r < 200 \<or> 299 < status_code r \<longrightarrow>
            request fetch a path m body
              = (Inl (KontistSDKError (Some (status_code r)) (statusText r)), [req]))
       \<and> (status_code r = 204 \<longrightarrow> request fetch a path m body = (Inr None, [req]))
       \<and> (200 \<le> status_code r \<and> status_code r \<le> 299 \<and> status_code r \<noteq> 204 \<longrightarrow>
            request fetch a path m body
              = ((case json_body r of Inl e \<Rightarrow> Inl e | Inr v \<Rightarrow> Inr (Some v)), [req]))"
  using assms by (auto simp: request_def request_recv_def ok_def HTTP_STATUS_NO_CONTENT_def)

theorem request_response_witness:
  "request (\<lambda>q. respond 500 ''Internal Server Error'' (JOther ''oops'')) exampleAuth ''/api/user/devices'' POST None
     = (Inl (KontistSDKError (Some 500) ''Internal Server Error''),
        [\<lparr>url_path = ''/api/user/devices'', url_base = ''https://api.kontist.com'', httpMethod = POST,
          authorization = ''Bearer at'', req_body = None\<rparr>])
   \<and> fst (request (\<lambda>q. respond 204 ''No Content'' (JOther [])) exampleAuth ''/api/user/devices/d1/verify'' POST None)
     = Inr None
   \<and> fst (request (\<lambda>q. respond 200 ''OK'' (JToken ''t2'')) exampleAuth ''/api/user/devices'' POST None)
     = Inr (Some (JToken ''t2''))"
  using
    request_response [of exampleAuth "''/api/user/devices''" POST None
      "\<lparr>url_path = ''/api/user/devices'', url_base = ''https://api.kontist.com'', httpMethod = POST,
          authorization = ''Bearer at'', req_body = None\<rparr>"
      "\<lambda>q. respond 500 ''Internal Server Error'' (JOther ''oops'')"
      "\<lparr>status_code = 500, statusText = ''Internal Server Error'', json_body = Inr (JOther ''oops'')\<rparr>"]
    request_response [of exampleAuth "''/api/user/devices/d1/verify''" POST None
      "\<lparr>url_path = ''/api/user/devices/d1/verify'', url_base = ''https://api.kontist.com'', httpMethod = POST,
          authorization = ''Bearer at'', req_body = None\<rparr>"
      "\<lambda>q. respond 204 ''No Content'' (JOther [])"
      "\<lparr>status_code = 204, statusText = ''No Content'', json_body = Inr (JOther [])\<rparr>"]
    request_response [of exampleAuth "''/api/user/devices''" POST None
      "\<lparr>url_path = ''/api/user/devices'', url_base = ''https://api.kontist.com'', httpMethod = POST,
          authorization = ''Bearer at'', req_body = None\<rparr>"
      "\<lambda>q. respond 200 ''OK'' (JToken ''t2'')"
      "\<lparr>status_code = 200, statusText = ''OK'', json_body = Inr (JToken ''t2'')\<rparr>"]
  by (simp add: request_send_def exampleAuth_def respond_def str_of_def)

text \<open>C7. The constructor fails with \<open>KontistSDKError\<close> for every non-empty verifier
  and non-empty client secret, and succeeds when one of the two is absent.\<close>

theorem constructor_exclusive:
  "(v \<noteq> [] \<and> s \<noteq> [] \<longrightarrow>
      constructor base (opts\<lparr>opt_verifier := Some v, opt_clientSecret := Some s\<rparr>)
        = Inl (KontistSDKError None ''You can provide only one parameter from ['verifier', 'clientSecret'].''))
   \<and> (vo = None \<or> so = None \<longrightarrow>
      (\<exists>a. constructor base (opts\<lparr>opt_verifier := vo, opt_clientSecret := so\<rparr>) = Inr a
           \<and> verifier a = vo \<and> clientSecret a = so \<and> token a = None))"
  by (auto simp: constructor_def truthy_def)

theorem constructor_exclusive_witness:
  "constructor ''https://api.kontist.com'' (exampleOpts\<lparr>opt_verifier := Some ''v'', opt_clientSecret := Some ''s''\<rparr>)
     = Inl (KontistSDKError None ''You can provide only one parameter from ['verifier', 'clientSecret'].'')
   \<and> (\<exists>a. constructor ''https://api.kontist.com'' (exampleOpts\<lparr>opt_verifier := Some ''v'', opt_clientSecret := None\<rparr>) = Inr a
          \<and> verifier a = Some ''v'' \<and> clientSecret a = None \<and> token a = None)"
  using constructor_exclusive [of "''v''" "''s''" "''https://api.kontist.com''" exampleOpts "Some ''v''" None]
  by simp

subsection \<open>Polling and cancelling\<close>

text \<open>C4. When the poll request of a pending confirmation returns a challenge whose
  \<open>expiresAt\<close> is before the clock reading, whatever its status, the tick calls
  \<open>reject\<close> with \<open>ChallengeExpiredError\<close>, the promise stays rejected with it, and no
  request is sent from then on by any sequence of events that starts no new confirmation.\<close>

theorem expired_poll_rejects_without_redemption:
  assumes "inflight w = [(k, AwaitPoll pc p)]" and "timers w = []" and "promises w p = None"
    and "200 \<le> status_code r" and "status_code r \<le> 299" and "status_code r \<noteq> 204"
    and "json_body r = Inr (JChallenge c)" and "expiresAt c < now"
    and "CallGetMFAConfirmedToken \<notin> set es"
  shows "settleCalls (step (FetchSettles k (Inr r) now) w) = settleCalls w @ [(p, Rejected ChallengeExpiredError)]
       \<and> promises (run (FetchSettles k (Inr r) now # es) w) p = Some (Rejected ChallengeExpiredError)
       \<and> sent (run (FetchSettles k (Inr r) now # es) w) = sent w"
proof -
  let ?w' = "step (FetchSettles k (Inr r) now) w"
  have w': "?w' = settle p (Rejected ChallengeExpiredError)
                    (w\<lparr>inflight := [], auth := (auth w)\<lparr>rejectMFAConfirmation := None\<rparr>\<rparr>)"
    using assms(1) afterGet_expired [OF assms(4-8)] by (simp add: step_def resume_def)
  have calls: "settleCalls ?w' = settleCalls w @ [(p, Rejected ChallengeExpiredError)]"
    by (simp add: w')
  have "promises ?w' p = Some (Rejected ChallengeExpiredError)"
    using assms(3) by (simp add: w')
  then have settled: "promises (run es ?w') p = Some (Rejected ChallengeExpiredError)"
    by (rule settled_run)
  have "inflight ?w' = []" and "timers ?w' = []" and same: "sent ?w' = sent w"
    using assms(2) by (simp_all add: w')
  from idle_run [OF this(1,2) assms(9)] same have "sent (run es ?w') = sent w"
    by simp
  with calls settled show ?thesis by simp
qed

theorem expired_poll_rejects_without_redemption_witness:
  "inflight firstPoll = [(1, AwaitPoll (Some (exampleChallenge PENDING)) 0)] \<and> timers firstPoll = []
   \<and> promises firstPoll 0 = None
   \<and> promises (run [FetchSettles 1 (Inr \<lparr>status_code = 200, statusText = ''OK'',
           json_body = Inr (JChallenge \<lparr>challenge_id = ''c1'', status = VERIFIED, expiresAt = 1000\<rparr>)\<rparr>) 2000,
         TimerFires 0, CallCancelMFAConfirmation, FetchSettles 2 (respond 200 ''OK'' (JToken ''t'')) 3000] firstPoll) 0
       = Some (Rejected ChallengeExpiredError)
   \<and> sent (run [FetchSettles 1 (Inr \<lparr>status_code = 200, statusText = ''OK'',
           json_body = Inr (JChallenge \<lparr>challenge_id = ''c1'', status = VERIFIED, expiresAt = 1000\<rparr>)\<rparr>) 2000,
         TimerFires 0, CallCancelMFAConfirmation, FetchSettles 2 (respond 200 ''OK'' (JToken ''t'')) 3000] firstPoll)
       = sent firstPoll"
  using expired_poll_rejects_without_redemption [of firstPoll 1 "Some (exampleChallenge PENDING)" 0
      "\<lparr>status_code = 200, statusText = ''OK'',
           json_body = Inr (JChallenge \<lparr>challenge_id = ''c1'', status = VERIFIED, expiresAt = 1000\<rparr>)\<rparr>"
      "\<lparr>challenge_id = ''c1'', status = VERIFIED, expiresAt = 1000\<rparr>" 2000
      "[TimerFires 0, CallCancelMFAConfirmation, FetchSettles 2 (respond 200 ''OK'' (JToken ''t'')) 3000]"]
  by (simp add: firstPoll_fields)

text \<open>C8. The claim: \<open>cancelMFAConfirmation\<close> rejects the pending confirmation
  whenever a poll is outstanding, and no further poll fires. What the code does while a
  poll request is in flight. During the first poll request no rejection callback is
  recorded: it rejects nothing, and the next scheduled poll fires. During a later poll
  request it rejects the promise, yet the tick goes on: a challenge still pending is
  polled again, and a challenge verified meanwhile is redeemed and its token stored.\<close>

theorem cancel_during_poll_request_goes_on:
  "inflight firstPoll = [(1, AwaitPoll (Some (exampleChallenge PENDING)) 0)]
   \<and> promises (cancelMFAConfirmation firstPoll) 0 = None
   \<and> settleCalls (cancelMFAConfirmation firstPoll) = []
   \<and> length (sent firstPoll) = 2
   \<and> length (sent (run [CallCancelMFAConfirmation,
                          FetchSettles 1 (respond 200 ''OK'' (exampleChallenge PENDING)) 10,
                          TimerFires 0] firstPoll)) = 3
   \<and> inflight secondPoll = [(2, AwaitPoll (Some (exampleChallenge PENDING)) 0)]
   \<and> promises (cancelMFAConfirmation secondPoll) 0 = Some (Rejected MFAConfirmationCanceledError)
   \<and> length (sent secondPoll) = 3
   \<and> length (sent (run [CallCancelMFAConfirmation,
                          FetchSettles 2 (respond 200 ''OK'' (exampleChallenge PENDING)) 20,
                          TimerFires 1] secondPoll)) = 4
   \<and> map url_path (sent (run [CallCancelMFAConfirmation,
                          FetchSettles 2 (respond 200 ''OK'' (exampleChallenge VERIFIED)) 20,
                          FetchSettles 3 (respond 200 ''OK'' (JToken ''confirmed'')) 30] secondPoll))
        = [''/api/user/mfa/challenges'', ''/api/user/mfa/challenges/c1'', ''/api/user/mfa/challenges/c1'',
           ''/api/user/mfa/challenges/c1/token'']
   \<and> token (auth (run [CallCancelMFAConfirmation,
                          FetchSettles 2 (respond 200 ''OK'' (exampleChallenge VERIFIED)) 20,
                          FetchSettles 3 (respond 200 ''OK'' (JToken ''confirmed'')) 30] secondPoll))
        = Some \<lparr>accessToken = Some ''confirmed'', refreshToken = None, tokenType = None\<rparr>
   \<and> promises (run [CallCancelMFAConfirmation,
                          FetchSettles 2 (respond 200 ''OK'' (exampleChallenge VERIFIED)) 20,
                          FetchSettles 3 (respond 200 ''OK'' (JToken ''confirmed'')) 30] secondPoll) 0
        = Some (Rejected MFAConfirmationCanceledError)"
  by (simp add: eval_defs)



section \<open>Further properties of the code\<close>

text \<open>Where the challenge is right: when the base64 text of the digest holds at most one
  \<open>+\<close> and at most one \<open>/\<close>, what \<open>getAuthUri\<close> computes is the base64url text.
  The digest of the verifier \<open>abc\<close> is such a one.\<close>

theorem challenge_of_is_base64url:
  assumes "count_list (btoa digest) (CHR ''+'') \<le> 1" and "count_list (btoa digest) (CHR ''/'') \<le> 1"
  shows "challenge_of digest = base64url_spec digest"
proof -
  let ?s = "filter (\<lambda>c. c \<noteq> CHR ''='') (btoa digest)"
  let ?f = "\<lambda>c. if c = CHR ''+'' then CHR ''-'' else c"
  have plus: "count_list ?s (CHR ''+'') \<le> 1"
    using assms(1) count_list_filter_le [of "\<lambda>c. c \<noteq> CHR ''=''" "btoa digest" "CHR ''+''"] by simp
  have slash: "count_list ?s (CHR ''/'') \<le> 1"
    using assms(2) count_list_filter_le [of "\<lambda>c. c \<noteq> CHR ''=''" "btoa digest" "CHR ''/''"] by simp
  have 1: "replace (CHR ''+'') (CHR ''-'') ?s = map ?f ?s"
    using plus by (rule replace_once)
  have "count_list (map ?f ?s) (CHR ''/'') = count_list ?s (CHR ''/'')"
    by (rule count_list_map_other) simp_all
  with slash have "count_list (map ?f ?s) (CHR ''/'') \<le> 1" by simp
  then have 2: "replace (CHR ''/'') (CHR ''_'') (map ?f ?s)
                  = map (\<lambda>c. if c = CHR ''/'' then CHR ''_'' else c) (map ?f ?s)"
    by (rule replace_once)
  have "challenge_of digest = replace (CHR ''/'') (CHR ''_'') (replace (CHR ''+'') (CHR ''-'') ?s)"
    by (simp add: challenge_of_def split_first_def btoa_def btoa_nat_padding)
  also have "\<dots> = map (\<lambda>c. if c = CHR ''/'' then CHR ''_'' else c) (map ?f ?s)"
    by (simp only: 1 2)
  also have "\<dots> = base64url_spec digest"
    by (simp add: base64url_spec_def)
  finally show ?thesis .
qed

theorem challenge_of_is_base64url_witness:
  "challenge_of [0xBA, 0x78, 0x16, 0xBF, 0x8F, 0x01, 0xCF, 0xEA, 0x41, 0x41, 0x40, 0xDE, 0x5D, 0xAE, 0x22, 0x23,
      0xB0, 0x03, 0x61, 0xA3, 0x96, 0x17, 0x7A, 0x9C, 0xB4, 0x10, 0xFF, 0x61, 0xF2, 0x00, 0x15, 0xAD]
     = ''ungWv48Bz-pBQUDeXa4iI7ADYaOWF3qctBD_YfIAFa0''"
  using challenge_of_is_base64url [of "[0xBA, 0x78, 0x16, 0xBF, 0x8F, 0x01, 0xCF, 0xEA, 0x41, 0x41, 0x40, 0xDE, 0x5D, 0xAE, 0x22, 0x23,
      0xB0, 0x03, 0x61, 0xA3, 0x96, 0x17, 0x7A, 0x9C, 0xB4, 0x10, 0xFF, 0x61, 0xF2, 0x00, 0x15, 0xAD]"]
  by (simp only: abc_digest_counts le_refl simp_thms)

text \<open>In a run of one confirmation at most one thing is pending at any moment: one
  request in flight or one scheduled poll, never both.\<close>

theorem one_poll_at_a_time:
  assumes "rejectMFAConfirmation a = None" and "CallGetMFAConfirmedToken \<notin> set es"
  shows "length (timers (run (CallGetMFAConfirmedToken # es) (init a)))
           + length (inflight (run (CallGetMFAConfirmedToken # es) (init a))) \<le> 1"
proof -
  have "chain 0 (run (CallGetMFAConfirmedToken # es) (init a))"
    using assms by (rule chain_reachable)
  then show ?thesis by (cases rule: chain.cases) simp_all
qed

theorem one_poll_at_a_time_witness:
  "length (timers pollScheduled) + length (inflight pollScheduled) \<le> 1 \<and> timers pollScheduled \<noteq> []"
  using one_poll_at_a_time [of exampleAuth
      "[FetchSettles 0 (respond 200 ''OK'' (exampleChallenge PENDING)) 0,
        FetchSettles 1 (respond 200 ''OK'' (exampleChallenge PENDING)) 10]"]
  by (simp add: eval_defs)

text \<open>A poll request that fails rejects the pending confirmation with the error of the
  request at once: nothing is scheduled and nothing is sent.\<close>

theorem failed_poll_rejects:
  assumes "inflight w = [(k, AwaitPoll pc p)]" and "promises w p = None" and "request_recv res = Inl e"
  shows "promises (step (FetchSettles k res now) w) p = Some (Rejected e)
       \<and> timers (step (FetchSettles k res now) w) = timers w
       \<and> inflight (step (FetchSettles k res now) w) = []
       \<and> sent (step (FetchSettles k res now) w) = sent w"
  using assms by (simp add: step_def resume_def pollChallengeStatus_afterGet_def)

theorem failed_poll_rejects_witness:
  "inflight firstPoll = [(1, AwaitPoll (Some (exampleChallenge PENDING)) 0)] \<and> promises firstPoll 0 = None
   \<and> promises (step (FetchSettles 1 (Inr \<lparr>status_code = 503, statusText = ''Service Unavailable'',
          json_body = Inl (FetchError ''no body'')\<rparr>) 10) firstPoll) 0
       = Some (Rejected (KontistSDKError (Some 503) ''Service Unavailable''))
   \<and> timers (step (FetchSettles 1 (Inr \<lparr>status_code = 503, statusText = ''Service Unavailable'',
          json_body = Inl (FetchError ''no body'')\<rparr>) 10) firstPoll) = []"
  using failed_poll_rejects [of firstPoll 1 "Some (exampleChallenge PENDING)" 0
      "Inr \<lparr>status_code = 503, statusText = ''Service Unavailable'', json_body = Inl (FetchError ''no body'')\<rparr>"
      "KontistSDKError (Some 503) ''Service Unavailable''" 10]
  by (simp add: firstPoll_fields request_recv_def ok_def)

text \<open>What \<open>cancelMFAConfirmation\<close> does do. It always clears the timeout whose id is
  recorded. On a client that starts with no rejection callback recorded and runs a single
  confirmation, whenever a poll is scheduled it leaves no timeout pending, the promise of
  that confirmation is rejected with \<open>MFAConfirmationCanceledError\<close>, and no request is
  sent from then on unless a new confirmation starts. With no rejection callback recorded
  and no timeout pending it changes nothing.\<close>

theorem cancelMFAConfirmation_effect:
  "(challengePollTimeoutId (auth w) = Some t \<longrightarrow> map_of (timers (cancelMFAConfirmation w)) t = None)
   \<and> (rejectMFAConfirmation a = None \<and> CallGetMFAConfirmedToken \<notin> set es0
        \<and> CallGetMFAConfirmedToken \<notin> set es
        \<and> timers (run (CallGetMFAConfirmedToken # es0) (init a)) \<noteq> [] \<longrightarrow>
        timers (cancelMFAConfirmation (run (CallGetMFAConfirmedToken # es0) (init a))) = []
        \<and> promises (run (CallCancelMFAConfirmation # es) (run (CallGetMFAConfirmedToken # es0) (init a))) 0
             = Some (Rejected MFAConfirmationCanceledError)
        \<and> sent (run (CallCancelMFAConfirmation # es) (run (CallGetMFAConfirmedToken # es0) (init a)))
             = sent (run (CallGetMFAConfirmedToken # es0) (init a)))
   \<and> (rejectMFAConfirmation (auth w) = None \<and> timers w = [] \<longrightarrow> cancelMFAConfirmation w = w)"
proof (intro conjI impI)
  assume "challengePollTimeoutId (auth w) = Some t"
  then have "timers (cancelMFAConfirmation w) = filter (\<lambda>e. fst e \<noteq> t) (timers w)"
    by simp
  then show "map_of (timers (cancelMFAConfirmation w)) t = None"
    by (simp add: map_of_filter_out)
next
  assume "rejectMFAConfirmation (auth w) = None \<and> timers w = []"
  then show "cancelMFAConfirmation w = w"
    by (simp add: cancelMFAConfirmation_def clearTimeout_def Let_def)
next
  let ?w = "run (CallGetMFAConfirmedToken # es0) (init a)"
  let ?c = "cancelMFAConfirmation ?w"
  assume h: "rejectMFAConfirmation a = None \<and> CallGetMFAConfirmedToken \<notin> set es0
        \<and> CallGetMFAConfirmedToken \<notin> set es \<and> timers ?w \<noteq> []"
  then have "chain 0 ?w" by (intro chain_reachable) simp_all
  then have shape: "inflight ?c = [] \<and> timers ?c = []
      \<and> promises ?c 0 = Some (Rejected MFAConfirmationCanceledError)"
  proof (cases rule: chain.cases)
    case (waiting t pc)
    then show ?thesis
      by (auto simp: cancelMFAConfirmation_def clearTimeout_def Let_def)
  qed (use h in simp_all)
  then show "timers ?c = []" by simp
  have r: "run (CallCancelMFAConfirmation # es) ?w = run es ?c"
    by (simp add: step_def)
  from shape have "promises (run es ?c) 0 = Some (Rejected MFAConfirmationCanceledError)"
    by (intro settled_run) simp
  then show "promises (run (CallCancelMFAConfirmation # es) ?w) 0 = Some (Rejected MFAConfirmationCanceledError)"
    by (simp only: r)
  from shape h have "sent (run es ?c) = sent ?c"
    using idle_run [of ?c es] by simp
  then show "sent (run (CallCancelMFAConfirmation # es) ?w) = sent ?w"
    by (simp only: r cancel_fields)
qed

theorem cancelMFAConfirmation_effect_witness:
  "challengePollTimeoutId (auth pollScheduled) = Some 0
   \<and> timers pollScheduled = [(0, Some (exampleChallenge PENDING), 0)]
   \<and> map_of (timers (cancelMFAConfirmation pollScheduled)) 0 = None
   \<and> timers (cancelMFAConfirmation pollScheduled) = []
   \<and> promises (run [CallCancelMFAConfirmation, TimerFires 0, CallCancelMFAConfirmation] pollScheduled) 0
        = Some (Rejected MFAConfirmationCanceledError)
   \<and> sent (run [CallCancelMFAConfirmation, TimerFires 0, CallCancelMFAConfirmation] pollScheduled) = sent pollScheduled
   \<and> cancelMFAConfirmation (init exampleAuth) = init exampleAuth"
  using cancelMFAConfirmation_effect [of pollScheduled 0 exampleAuth
      "[FetchSettles 0 (respond 200 ''OK'' (exampleChallenge PENDING)) 0,
        FetchSettles 1 (respond 200 ''OK'' (exampleChallenge PENDING)) 10]"
      "[TimerFires 0, CallCancelMFAConfirmation]"]
    cancelMFAConfirmation_effect [of "init exampleAuth" 0 exampleAuth "[]" "[]"]
  by (simp add: eval_defs)

text \<open>A tick that rejects because its poll request failed leaves the rejection callback
  recorded: a following \<open>cancelMFAConfirmation\<close> calls it again, and the promise
  keeps the error of the request.\<close>

theorem cancel_after_failed_poll_calls_reject:
  "promises failedPoll 0 = Some (Rejected (FetchError ''network''))
   \<and> settleCalls failedPoll = [(0, Rejected (FetchError ''network''))]
   \<and> rejectMFAConfirmation (auth failedPoll) = Some 0
   \<and> settleCalls (cancelMFAConfirmation failedPoll)
        = [(0, Rejected (FetchError ''network'')), (0, Rejected MFAConfirmationCanceledError)]
   \<and> promises (cancelMFAConfirmation failedPoll) 0 = Some (Rejected (FetchError ''network''))"
  by (simp add: failedPoll_fields)

end
